theory Spec2Isabelle
  imports Complex_Main "HOL-Library.Word"
begin

section \<open>Basic types\<close>

type_synonym address = "160 word"
type_synonym uint256 = "256 word"
type_synonym bytes = "8 word list"

section \<open>The instruction blob: ABI coding of (uint256, address[], bytes[])\<close>

text \<open>
  Modelled from the spec: the wire format of the instruction blob, the tuple
  (minimumProfit: unsigned 256-bit, targets: sequence of addresses, payloads: sequence of
  byte strings) with length-prefixed sequences. The bot builds the blob with
  \<^verbatim>\<open>AbiCoder.encode(["uint256", "address[]", "bytes[]"], ...)\<close> and the contract reads
  it with \<^verbatim>\<open>abi.decode(params, (uint256, address[], bytes[]))\<close>; neither the encoder
  nor the decoder is in the sources. They are written out here after the Contract ABI
  Specification, which both implement: 32-byte big-endian words, a head of one value and
  two offsets, every dynamic part prefixed by its length, byte strings padded with zeros
  to a multiple of 32. Offsets and lengths are read as natural numbers; the decoder's
  extra bound of 2^64 on them is implied by the bounds checks against the length of the
  data for any data shorter than 2^64 bytes and is left out.
\<close>

fun be_bytes :: "nat \<Rightarrow> nat \<Rightarrow> bytes" where
  "be_bytes 0 n = []"
| "be_bytes (Suc k) n = be_bytes k (n div 256) @ [of_nat (n mod 256)]"

definition be_nat :: "bytes \<Rightarrow> nat" where
  "be_nat bs = foldl (\<lambda>acc b. acc * 256 + unat b) 0 bs"

definition abi_word :: "nat \<Rightarrow> bytes" where
  "abi_word n = be_bytes 32 n"

definition pad32 :: "nat \<Rightarrow> nat" where
  "pad32 n = (32 - n mod 32) mod 32"

definition enc_bytes :: "bytes \<Rightarrow> bytes" where
  "enc_bytes b = abi_word (length b) @ b @ replicate (pad32 (length b)) 0"

definition enc_address_array :: "address list \<Rightarrow> bytes" where
  "enc_address_array ts = abi_word (length ts) @ concat (map (\<lambda>a. abi_word (unat a)) ts)"

fun bytes_offsets :: "nat \<Rightarrow> bytes list \<Rightarrow> nat list" where
  "bytes_offsets off [] = []"
| "bytes_offsets off (p # ps) = off # bytes_offsets (off + length (enc_bytes p)) ps"

definition enc_bytes_array :: "bytes list \<Rightarrow> bytes" where
  "enc_bytes_array ps =
     abi_word (length ps) @ concat (map abi_word (bytes_offsets (32 * length ps) ps))
       @ concat (map enc_bytes ps)"

definition abi_encode :: "uint256 \<Rightarrow> address list \<Rightarrow> bytes list \<Rightarrow> bytes" where
  "abi_encode m ts ps =
     abi_word (unat m) @ abi_word 96 @ abi_word (96 + length (enc_address_array ts))
       @ enc_address_array ts @ enc_bytes_array ps"

definition read_word :: "bytes \<Rightarrow> nat \<Rightarrow> nat option" where
  "read_word d off =
     (if off + 32 \<le> length d then Some (be_nat (take 32 (drop off d))) else None)"

fun read_addresses :: "bytes \<Rightarrow> nat \<Rightarrow> nat \<Rightarrow> address list option" where
  "read_addresses d pos 0 = Some []"
| "read_addresses d pos (Suc n) =
     (case read_word d pos of
        None \<Rightarrow> None
      | Some v \<Rightarrow>
          if v < 2 ^ 160 then
            (case read_addresses d (pos + 32) n of
               None \<Rightarrow> None
             | Some as \<Rightarrow> Some (of_nat v # as))
          else None)"

definition dec_address_array :: "bytes \<Rightarrow> nat \<Rightarrow> address list option" where
  "dec_address_array d off =
     (case read_word d off of
        None \<Rightarrow> None
      | Some n \<Rightarrow> if off + 32 + 32 * n \<le> length d then read_addresses d (off + 32) n else None)"

definition dec_bytes :: "bytes \<Rightarrow> nat \<Rightarrow> bytes option" where
  "dec_bytes d pos =
     (case read_word d pos of
        None \<Rightarrow> None
      | Some n \<Rightarrow> if pos + 32 + n \<le> length d then Some (take n (drop (pos + 32) d)) else None)"

fun read_bytes_elems :: "bytes \<Rightarrow> nat \<Rightarrow> nat \<Rightarrow> nat \<Rightarrow> bytes list option" where
  "read_bytes_elems d base hp 0 = Some []"
| "read_bytes_elems d base hp (Suc n) =
     (case read_word d hp of
        None \<Rightarrow> None
      | Some off \<Rightarrow>
          (case dec_bytes d (base + off) of
             None \<Rightarrow> None
           | Some b \<Rightarrow>
               (case read_bytes_elems d base (hp + 32) n of
                  None \<Rightarrow> None
                | Some bs \<Rightarrow> Some (b # bs))))"

definition dec_bytes_array :: "bytes \<Rightarrow> nat \<Rightarrow> bytes list option" where
  "dec_bytes_array d off =
     (case read_word d off of
        None \<Rightarrow> None
      | Some n \<Rightarrow>
          if off + 32 + 32 * n \<le> length d then read_bytes_elems d (off + 32) (off + 32) n
          else None)"

definition abi_decode :: "bytes \<Rightarrow> (uint256 \<times> address list \<times> bytes list) option" where
  "abi_decode d =
     (case read_word d 0 of
        None \<Rightarrow> None
      | Some m \<Rightarrow>
          (case read_word d 32 of
             None \<Rightarrow> None
           | Some o1 \<Rightarrow>
               (case read_word d 64 of
                  None \<Rightarrow> None
                | Some o2 \<Rightarrow>
                    (case dec_address_array d o1 of
                       None \<Rightarrow> None
                     | Some ts \<Rightarrow>
                         (case dec_bytes_array d o2 of
                            None \<Rightarrow> None
                          | Some ps \<Rightarrow> Some (of_nat m, ts, ps))))))"

section \<open>The settlement contract (FlashArbitrage)\<close>

text \<open>
  Tokens are reached through the interface \<^verbatim>\<open>IERC20\<close>; their code is not part of the
  contract. A token is taken to keep a plain ledger: a balance for every holder and an
  allowance for every (owner, spender) pair, in unsigned 256-bit numbers.
\<close>

record chain =
  balances :: "address \<Rightarrow> address \<Rightarrow> uint256"
  allowances :: "address \<Rightarrow> address \<Rightarrow> address \<Rightarrow> uint256"

definition balanceOf :: "address \<Rightarrow> address \<Rightarrow> chain \<Rightarrow> uint256" where
  "balanceOf token account c = balances c token account"

definition allowance :: "address \<Rightarrow> address \<Rightarrow> address \<Rightarrow> chain \<Rightarrow> uint256" where
  "allowance token holder spender c = allowances c token holder spender"

definition erc20_approve :: "address \<Rightarrow> address \<Rightarrow> address \<Rightarrow> uint256 \<Rightarrow> chain \<Rightarrow> chain" where
  "erc20_approve token holder spender amount c =
     c\<lparr>allowances := (allowances c)
         (token := (allowances c token)
            (holder := (allowances c token holder)(spender := amount)))\<rparr>"

definition move :: "address \<Rightarrow> address \<Rightarrow> address \<Rightarrow> uint256 \<Rightarrow> chain \<Rightarrow> chain" where
  "move token src dst amount c =
     (let b1 = (balances c token)(src := balances c token src - amount);
          b2 = b1(dst := b1 dst + amount)
      in c\<lparr>balances := (balances c)(token := b2)\<rparr>)"

definition erc20_transfer :: "address \<Rightarrow> address \<Rightarrow> address \<Rightarrow> uint256 \<Rightarrow> chain \<Rightarrow> chain option" where
  "erc20_transfer token src dst amount c =
     (if balances c token src < amount then None else Some (move token src dst amount c))"

definition erc20_transferFrom ::
  "address \<Rightarrow> address \<Rightarrow> address \<Rightarrow> address \<Rightarrow> uint256 \<Rightarrow> chain \<Rightarrow> chain option" where
  "erc20_transferFrom token spender src dst amount c =
     (if allowances c token src spender < amount \<or> balances c token src < amount then None
      else Some (move token src dst amount
             (erc20_approve token src spender (allowances c token src spender - amount) c)))"

text \<open>
  The immutable configuration of a deployed contract: its own address, the operator
  (\<^verbatim>\<open>owner\<close>), the lending pool and the addresses provider.
\<close>

record contract =
  this :: address
  owner :: address
  pool :: address
  addressesProvider :: address

datatype event =
    DebugLog string uint256
  | ArbitrageFailure string
  | ArbitrageProfit address uint256

text \<open>
  What a call of the contract does to the outside, in order: the low-level calls of the
  trade loop and the token calls that change a ledger.
\<close>

datatype action =
    Call address bytes
  | Approve address address uint256
  | Transfer address address uint256
  | TransferFrom address address address uint256

text \<open>
  A revert with a reason string, a panic with its code (0x11 arithmetic overflow, 0x32
  index out of bounds; Solidity 0.8 checks both), or a revert without data (a blob that
  does not decode, a token call that fails, a selector the contract does not have).
\<close>

datatype error = Revert string | Panic nat | RevertNoData

record exec =
  chain_st :: chain
  events :: "event list"
  trace :: "action list"

definition start_exec :: "chain \<Rightarrow> exec" where
  "start_exec c = \<lparr>chain_st = c, events = [], trace = []\<rparr>"

definition emit :: "event \<Rightarrow> exec \<Rightarrow> exec" where
  "emit e s = s\<lparr>events := events s @ [e]\<rparr>"

definition did :: "action \<Rightarrow> exec \<Rightarrow> exec" where
  "did a s = s\<lparr>trace := trace s @ [a]\<rparr>"

text \<open>
  The target of a trade instruction is any code at all: \<open>ext target payload c\<close> is what
  the low-level call returns (its success flag) and the chain it leaves.
\<close>

type_synonym ext_call = "address \<Rightarrow> bytes \<Rightarrow> chain \<Rightarrow> bool \<times> chain"

text \<open>The trade loop, lines 55 to 61; \<open>path ! i\<close> is bounds-checked before the call.\<close>

function swap_loop ::
  "ext_call \<Rightarrow> address list \<Rightarrow> bytes list \<Rightarrow> nat \<Rightarrow> exec \<Rightarrow> (error + unit) \<times> exec" where
  "swap_loop ext path swapData i s =
     (if i < length swapData then
        (if length path \<le> i then (Inl (Panic 0x32), s)
         else
           (let r = ext (path ! i) (swapData ! i) (chain_st s);
                s' = did (Call (path ! i) (swapData ! i)) s
            in if \<not> fst r then (Inl (Revert ''Swap failed''), emit (ArbitrageFailure ''Swap failed'') s')
               else swap_loop ext path swapData (Suc i) (s'\<lparr>chain_st := snd r\<rparr>)))
      else (Inr (), s))"
  by pat_completeness auto
termination
  by (relation "measure (\<lambda>(ext, path, swapData, i, s). length swapData - i)") auto

text \<open>Lines 71 to 77.\<close>

definition distribute ::
  "contract \<Rightarrow> address \<Rightarrow> uint256 \<Rightarrow> uint256 \<Rightarrow> uint256 \<Rightarrow> exec \<Rightarrow> (error + bool) \<times> exec" where
  "distribute ct asset finalBalance totalDebt minProfit s =
     (if finalBalance > totalDebt then
        (let profit = finalBalance - totalDebt in
         if profit \<ge> minProfit then
           (case erc20_transfer asset (this ct) (owner ct) profit (chain_st s) of
              None \<Rightarrow> (Inl RevertNoData, s)
            | Some c' \<Rightarrow>
                (Inr True,
                 emit (ArbitrageProfit asset profit)
                   (did (Transfer asset (owner ct) profit) (s\<lparr>chain_st := c'\<rparr>))))
         else (Inr True, s))
      else (Inr True, s))"

text \<open>Lines 63 to 79: the debt, the solvency check, the allowance and the distribution.\<close>

definition settle ::
  "contract \<Rightarrow> address \<Rightarrow> uint256 \<Rightarrow> uint256 \<Rightarrow> uint256 \<Rightarrow> exec \<Rightarrow> (error + bool) \<times> exec" where
  "settle ct asset amount premium minProfit s =
     (if unat amount + unat premium \<ge> 2 ^ 256 then (Inl (Panic 0x11), s)
      else
        (let totalDebt = amount + premium;
             finalBalance = balanceOf asset (this ct) (chain_st s);
             s1 = emit (DebugLog ''Final balance'' finalBalance) s
         in if \<not> finalBalance \<ge> totalDebt then (Inl (Revert ''Insufficient funds to repay''), s1)
            else
              (let s2 = did (Approve asset (pool ct) totalDebt)
                          (s1\<lparr>chain_st := erc20_approve asset (this ct) (pool ct) totalDebt (chain_st s1)\<rparr>)
               in distribute ct asset finalBalance totalDebt minProfit s2)))"

definition executeOperation ::
  "contract \<Rightarrow> ext_call \<Rightarrow> address \<Rightarrow> address \<Rightarrow> uint256 \<Rightarrow> uint256 \<Rightarrow> address \<Rightarrow> bytes
     \<Rightarrow> exec \<Rightarrow> (error + bool) \<times> exec" where
  "executeOperation ct ext sender asset amount premium initiator params s =
     (if sender \<noteq> pool ct then (Inl (Revert ''Unauthorized''), s)
      else if initiator \<noteq> owner ct then (Inl (Revert ''Unauthorized initiator''), s)
      else
        (let balanceBefore = balanceOf asset (this ct) (chain_st s);
             s1 = emit (DebugLog ''Initial balance'' balanceBefore) s
         in case abi_decode params of
              None \<Rightarrow> (Inl RevertNoData, s1)
            | Some (minProfit, path, swapData) \<Rightarrow>
                (case swap_loop ext path swapData 0 s1 of
                   (Inl e, s2) \<Rightarrow> (Inl e, s2)
                 | (Inr u, s2) \<Rightarrow> settle ct asset amount premium minProfit s2)))"

definition fundContract ::
  "contract \<Rightarrow> address \<Rightarrow> address \<Rightarrow> uint256 \<Rightarrow> exec \<Rightarrow> (error + unit) \<times> exec" where
  "fundContract ct sender token amount s =
     (if sender \<noteq> owner ct then (Inl (Revert ''Only owner''), s)
      else
        (case erc20_transferFrom token (this ct) sender (this ct) amount (chain_st s) of
           None \<Rightarrow> (Inl RevertNoData, s)
         | Some c' \<Rightarrow> (Inr (), did (TransferFrom token sender (this ct) amount) (s\<lparr>chain_st := c'\<rparr>))))"

definition withdrawToken :: "contract \<Rightarrow> address \<Rightarrow> address \<Rightarrow> exec \<Rightarrow> (error + unit) \<times> exec" where
  "withdrawToken ct sender token s =
     (if sender \<noteq> owner ct then (Inl (Revert ''Only owner''), s)
      else
        (let balance = balanceOf token (this ct) (chain_st s) in
         case erc20_transfer token (this ct) (owner ct) balance (chain_st s) of
           None \<Rightarrow> (Inl RevertNoData, s)
         | Some c' \<Rightarrow> (Inr (), did (Transfer token (owner ct) balance) (s\<lparr>chain_st := c'\<rparr>))))"

text \<open>
  The external surface of the contract: the functions it declares, the getters of its
  three public immutables, and every other selector. The contract has neither a fallback
  nor a receive function, so a call with any other selector reverts without data.
\<close>

datatype call =
    ExecuteOperation address uint256 uint256 address bytes
  | FundContract address uint256
  | WithdrawToken address
  | ADDRESSES_PROVIDER
  | POOL
  | Get_owner
  | Get_pool
  | Get_addressesProvider
  | Other string "bytes"

datatype ret = RBool bool | RAddress address | RUnit

definition as_ret :: "('a \<Rightarrow> ret) \<Rightarrow> (error + 'a) \<times> exec \<Rightarrow> (error + ret) \<times> exec" where
  "as_ret f r = (case fst r of Inl e \<Rightarrow> (Inl e, snd r) | Inr v \<Rightarrow> (Inr (f v), snd r))"

fun dispatch :: "contract \<Rightarrow> ext_call \<Rightarrow> address \<Rightarrow> call \<Rightarrow> exec \<Rightarrow> (error + ret) \<times> exec" where
  "dispatch ct ext sender (ExecuteOperation asset amount premium initiator params) s =
     as_ret RBool (executeOperation ct ext sender asset amount premium initiator params s)"
| "dispatch ct ext sender (FundContract token amount) s =
     as_ret (\<lambda>u. RUnit) (fundContract ct sender token amount s)"
| "dispatch ct ext sender (WithdrawToken token) s =
     as_ret (\<lambda>u. RUnit) (withdrawToken ct sender token s)"
| "dispatch ct ext sender ADDRESSES_PROVIDER s = (Inr (RAddress (addressesProvider ct)), s)"
| "dispatch ct ext sender POOL s = (Inr (RAddress (pool ct)), s)"
| "dispatch ct ext sender Get_owner s = (Inr (RAddress (owner ct)), s)"
| "dispatch ct ext sender Get_pool s = (Inr (RAddress (pool ct)), s)"
| "dispatch ct ext sender Get_addressesProvider s = (Inr (RAddress (addressesProvider ct)), s)"
| "dispatch ct ext sender (Other sig args) s = (Inl RevertNoData, s)"

text \<open>
  A transaction is all or nothing: what persists of a call is the chain it leaves when it
  returns, and the chain it started from when it reverts.
\<close>

definition persisted :: "chain \<Rightarrow> (error + 'a) \<times> exec \<Rightarrow> chain" where
  "persisted c r = (case fst r of Inl e \<Rightarrow> c | Inr v \<Rightarrow> chain_st (snd r))"

section \<open>The bot (ProductionArbitrageBot)\<close>

subsection \<open>Configuration\<close>

definition UNISWAP_V3_ROUTER :: address where
  "UNISWAP_V3_ROUTER = 0x3fC91A3afd70395Cd496C647d5a6CC9D4B2b7FAD"

definition SUSHISWAP_ROUTER :: address where
  "SUSHISWAP_ROUTER = 0x1b02dA8Cb0d097eB8D57A175b88c7D8b47997506"

definition DAI :: address where
  "DAI = 0xFF34B3d4Aee8ddCd6F9AFFFB6Fe49bD371b8a357"

definition WETH :: address where
  "WETH = 0xC558DBdd856501FCd9aaF1E62eae57A9F0629a3c"

text \<open>\<^verbatim>\<open>parseUnits("0.1", 18)\<close>, \<^verbatim>\<open>parseUnits("10", 18)\<close> and the threshold in basis points.\<close>

definition MIN_PROFIT_WEI :: int where
  "MIN_PROFIT_WEI = 10 ^ 17"

definition DEFAULT_AMOUNT :: int where
  "DEFAULT_AMOUNT = 10 * 10 ^ 18"

definition MIN_PRICE_DIFFERENCE :: int where
  "MIN_PRICE_DIFFERENCE = 50"

text \<open>
  \<^verbatim>\<open>parseUnits("25", "gwei")\<close> is 25 * 10^9 wei. Gas prices are compared in gwei, as
  \<^verbatim>\<open>parseFloat(formatUnits(x, "gwei"))\<close>: the decimal number x / 10^9. It is kept here
  as a rational number; rounding it to a double is monotone and leaves 25 and 50 as they
  are, so the comparison with the ceiling is the same.
\<close>

definition MAX_GAS_PRICE :: int where
  "MAX_GAS_PRICE = 25 * 10 ^ 9"

definition gwei :: "int \<Rightarrow> rat" where
  "gwei x = of_int x / 10 ^ 9"

subsection \<open>The opportunity evaluator\<close>

record quote =
  q_amount :: int
  q_source :: string

text \<open>
  The field \<open>priceDifference\<close> holds the divergence in basis points; the source stores
  that number divided by 100 as a double, for display.
\<close>

record opportunity =
  tokenA :: address
  tokenB :: address
  opp_amount :: int
  buyFromDex :: string
  sellToDex :: string
  buyPrice :: int
  sellPrice :: int
  estimatedProfit :: int
  priceDifference :: int
  gasEstimate :: int

datatype js_error = RangeError | Error string

text \<open>Division of BigInt values: towards zero, and a RangeError when the divisor is 0.\<close>

definition bigint_div :: "int \<Rightarrow> int \<Rightarrow> js_error + int" where
  "bigint_div a b = (if b = 0 then Inl RangeError else Inr (sgn a * sgn b * (\<bar>a\<bar> div \<bar>b\<bar>)))"

definition analyzeOpportunity ::
  "int \<Rightarrow> quote \<Rightarrow> quote \<Rightarrow> address \<Rightarrow> address \<Rightarrow> js_error + opportunity option" where
  "analyzeOpportunity amount price1 price2 tkA tkB =
     (let amount1 = q_amount price1;
          amount2 = q_amount price2
      in case (if amount1 > amount2 then bigint_div ((amount1 - amount2) * 10000) amount1
               else bigint_div ((amount2 - amount1) * 10000) amount2) of
           Inl e \<Rightarrow> Inl e
         | Inr priceDiff \<Rightarrow>
             if priceDiff < MIN_PRICE_DIFFERENCE then Inr None
             else
               (let buyFrom = (if amount1 > amount2 then q_source price2 else q_source price1);
                    sellTo = (if amount1 > amount2 then q_source price1 else q_source price2);
                    buyP = (if amount1 > amount2 then amount2 else amount1);
                    sellP = (if amount1 > amount2 then amount1 else amount2)
                in case bigint_div (amount * 9) 10000 of
                     Inl e \<Rightarrow> Inl e
                   | Inr flashLoanFee \<Rightarrow>
                       (let profit = sellP - buyP - flashLoanFee in
                        if profit < MIN_PROFIT_WEI then Inr None
                        else Inr (Some \<lparr>tokenA = tkA, tokenB = tkB, opp_amount = amount,
                               buyFromDex = buyFrom, sellToDex = sellTo, buyPrice = buyP,
                               sellPrice = sellP, estimatedProfit = profit,
                               priceDifference = priceDiff, gasEstimate = 200000\<rparr>))))"

subsection \<open>The instruction blob of an opportunity\<close>

text \<open>
  Two targets, two empty payloads. The encoder refuses a value that is not an unsigned
  256-bit number: the call throws.
\<close>

definition encodeArbitrageParams :: "opportunity \<Rightarrow> bytes option" where
  "encodeArbitrageParams opp =
     (let swapTargets =
            [if buyFromDex opp = ''uniswap'' then UNISWAP_V3_ROUTER else SUSHISWAP_ROUTER,
             if sellToDex opp = ''uniswap'' then UNISWAP_V3_ROUTER else SUSHISWAP_ROUTER];
          swapData = [[], []]
      in if 0 \<le> estimatedProfit opp \<and> estimatedProfit opp < 2 ^ 256
         then Some (abi_encode (of_int (estimatedProfit opp)) swapTargets swapData)
         else None)"

subsection \<open>Gas price, scanning and one trading cycle\<close>

record bot =
  gasHistory :: "(int \<times> rat) list"
  profitHistory :: "(int \<times> uint256) list"

text \<open>
  What the outside answers during one cycle: the clock, the fee data (\<open>None\<close> when
  fetching or formatting it throws), the two quotes (\<open>None\<close> when the call fails) and
  the logs of the receipt of the loan transaction (\<open>None\<close> when sending it or waiting
  for it throws).
\<close>

record cycle_env =
  now :: int
  feeData :: "int option"
  uniswapQuote :: "int option"
  sushiQuote :: "int option"
  loanReceipt :: "event list option"

record config =
  AAVE_POOL :: address
  FLASH_ARBITRAGE :: address
  wallet :: address

datatype request =
    GetFeeData
  | QuoteUniswap address address int
  | QuoteSushi address address int
  | FlashLoanSimple address address int bytes nat

definition getCurrentGasPrice :: "cycle_env \<Rightarrow> bot \<Rightarrow> rat \<times> bot" where
  "getCurrentGasPrice env b =
     (case feeData env of
        None \<Rightarrow> (50, b)
      | Some wei \<Rightarrow>
          (let gasPrice = gwei wei;
               h = gasHistory b @ [(now env, gasPrice)];
               h' = (if length h > 20 then drop (length h - 20) h else h)
           in (gasPrice, b\<lparr>gasHistory := h'\<rparr>)))"

definition scanForArbitrageOpportunities :: "cycle_env \<Rightarrow> opportunity list \<times> request list" where
  "scanForArbitrageOpportunities env =
     (let amount = DEFAULT_AMOUNT;
          reqs = [QuoteUniswap DAI WETH amount, QuoteSushi DAI WETH amount]
      in case (uniswapQuote env, sushiQuote env) of
           (Some u, Some v) \<Rightarrow>
             (case analyzeOpportunity amount \<lparr>q_amount = u, q_source = ''uniswap''\<rparr>
                     \<lparr>q_amount = v, q_source = ''sushiswap''\<rparr> DAI WETH of
                Inr (Some opp) \<Rightarrow> ([opp], reqs)
              | _ \<Rightarrow> ([], reqs))
         | _ \<Rightarrow> ([], reqs))"

text \<open>
  The last profit and the last failure among the logs; a profit of 0 counts as none
  (\<^verbatim>\<open>if (profit)\<close>).
\<close>

fun last_profit :: "event list \<Rightarrow> uint256 option \<Rightarrow> uint256 option" where
  "last_profit [] acc = acc"
| "last_profit (ArbitrageProfit t p # es) acc = last_profit es (Some p)"
| "last_profit (e # es) acc = last_profit es acc"

definition parseTransactionResult :: "cycle_env \<Rightarrow> event list \<Rightarrow> bot \<Rightarrow> bot" where
  "parseTransactionResult env logs b =
     (case last_profit logs None of
        Some p \<Rightarrow> if p \<noteq> 0 then b\<lparr>profitHistory := profitHistory b @ [(now env, p)]\<rparr> else b
      | None \<Rightarrow> b)"

definition executeArbitrage :: "config \<Rightarrow> cycle_env \<Rightarrow> opportunity \<Rightarrow> bot \<Rightarrow> bot \<times> request list" where
  "executeArbitrage cfg env opp b =
     (case encodeArbitrageParams opp of
        None \<Rightarrow> (b, [])
      | Some params \<Rightarrow>
          (let reqs = [FlashLoanSimple (FLASH_ARBITRAGE cfg) (tokenA opp) (opp_amount opp) params 0]
           in case loanReceipt env of
                None \<Rightarrow> (b, reqs)
              | Some logs \<Rightarrow> (parseTransactionResult env logs b, reqs)))"

definition executeTradingCycle :: "config \<Rightarrow> cycle_env \<Rightarrow> bot \<Rightarrow> bot \<times> request list" where
  "executeTradingCycle cfg env b =
     (let (gasPrice, b1) = getCurrentGasPrice env b in
      if gasPrice > gwei MAX_GAS_PRICE then (b1, [GetFeeData])
      else
        (let (opportunities, reqs) = scanForArbitrageOpportunities env in
         case opportunities of
           [] \<Rightarrow> (b1, GetFeeData # reqs)
         | bestOpportunity # rest \<Rightarrow>
             (let (b2, reqs2) = executeArbitrage cfg env bestOpportunity b1
              in (b2, GetFeeData # reqs @ reqs2))))"

subsection \<open>The funding guard\<close>

text \<open>
  The transactions the guard has had confirmed, in order. The funding transaction runs the
  contract's \<open>fundContract\<close> with the wallet as sender; when it reverts, waiting for it
  throws and only the approval stands.
\<close>

datatype tx = TxApprove address address uint256 | TxFundContract address uint256

definition ensureContractFunding ::
  "config \<Rightarrow> contract \<Rightarrow> chain \<Rightarrow> (js_error + unit) \<times> chain \<times> tx list" where
  "ensureContractFunding cfg ct c =
     (let balance = balanceOf DAI (FLASH_ARBITRAGE cfg) c in
      if balance < 5 * 10 ^ 18 then
        (let walletDaiBalance = balanceOf DAI (wallet cfg) c in
         if walletDaiBalance < 10 * 10 ^ 18
         then (Inl (Error ''Insufficient DAI in wallet for contract funding''), c, [])
         else
           (let c1 = erc20_approve DAI (wallet cfg) (FLASH_ARBITRAGE cfg) (10 * 10 ^ 18) c;
                r = fundContract ct (wallet cfg) DAI (10 * 10 ^ 18) (start_exec c1)
            in case fst r of
                 Inl e \<Rightarrow>
                   (Inl (Error ''transaction failed''), c1,
                    [TxApprove DAI (FLASH_ARBITRAGE cfg) (10 * 10 ^ 18)])
               | Inr u \<Rightarrow>
                   (Inr (), chain_st (snd r),
                    [TxApprove DAI (FLASH_ARBITRAGE cfg) (10 * 10 ^ 18),
                     TxFundContract DAI (10 * 10 ^ 18)])))
      else (Inr (), c, []))"

subsection \<open>The orchestrator: start, stop and the restart timer\<close>

text \<open>
  The process is one event loop. An activation of \<^verbatim>\<open>start()\<close> is suspended at one of
  its three awaits: the startup checks, a trading cycle, or the pause between two cycles.
  The events are the 5-second timer of the last lines of the script, the completion of an
  await of activation \<open>i\<close>, a call of \<^verbatim>\<open>stop()\<close>, and SIGINT, whose handler calls
  \<^verbatim>\<open>stop()\<close> and then \<^verbatim>\<open>process.exit(0)\<close>. \<open>cycles\<close> counts the calls of
  \<^verbatim>\<open>executeTradingCycle\<close>.
\<close>

datatype task = AwaitStartup | InCycle | Sleeping

record orch =
  isRunning :: bool
  exited :: bool
  tasks :: "task list"
  cycles :: nat

datatype ev = Tick | StartupDone nat bool | CycleDone nat | Wake nat | Stop | Sigint

definition remove_task :: "nat \<Rightarrow> task list \<Rightarrow> task list" where
  "remove_task i ts = take i ts @ drop (Suc i) ts"

text \<open>The top of the while loop of activation \<open>i\<close>, and the \<^verbatim>\<open>finally\<close> block behind it.\<close>

definition loop_top :: "nat \<Rightarrow> orch \<Rightarrow> orch" where
  "loop_top i s =
     (if isRunning s then s\<lparr>tasks := (tasks s)[i := InCycle], cycles := Suc (cycles s)\<rparr>
      else s\<lparr>isRunning := False, tasks := remove_task i (tasks s)\<rparr>)"

definition initial :: orch where
  "initial = \<lparr>isRunning = False, exited = False, tasks = [], cycles = 0\<rparr>"

fun step :: "ev \<Rightarrow> orch \<Rightarrow> orch" where
  "step Tick s =
     (if exited s \<or> isRunning s then s
      else s\<lparr>isRunning := True, tasks := tasks s @ [AwaitStartup]\<rparr>)"
| "step (StartupDone i ok) s =
     (if exited s \<or> \<not> (i < length (tasks s) \<and> tasks s ! i = AwaitStartup) then s
      else if ok then loop_top i s
      else s\<lparr>isRunning := False, tasks := remove_task i (tasks s)\<rparr>)"
| "step (CycleDone i) s =
     (if exited s \<or> \<not> (i < length (tasks s) \<and> tasks s ! i = InCycle) then s
      else s\<lparr>tasks := (tasks s)[i := Sleeping]\<rparr>)"
| "step (Wake i) s =
     (if exited s \<or> \<not> (i < length (tasks s) \<and> tasks s ! i = Sleeping) then s
      else loop_top i s)"
| "step Stop s = (if exited s then s else s\<lparr>isRunning := False\<rparr>)"
| "step Sigint s = (if exited s then s else s\<lparr>isRunning := False, exited := True, tasks := []\<rparr>)"

fun run :: "ev list \<Rightarrow> orch \<Rightarrow> orch" where
  "run [] s = s"
| "run (e # es) s = run es (step e s)"

text \<open>
  The startup checks: the reserve of 0.01 ether, the funding guard, a gas price reading.
\<close>

definition performStartupChecks ::
  "config \<Rightarrow> contract \<Rightarrow> int \<Rightarrow> cycle_env \<Rightarrow> bot \<Rightarrow> chain
     \<Rightarrow> (js_error + bot) \<times> chain \<times> tx list" where
  "performStartupChecks cfg ct ethBalance env b c =
     (if ethBalance < 10 ^ 16 then (Inl (Error ''Insufficient ETH balance''), c, [])
      else
        (case ensureContractFunding cfg ct c of
           (Inl e, c', txs) \<Rightarrow> (Inl e, c', txs)
         | (Inr u, c', txs) \<Rightarrow> (Inr (snd (getCurrentGasPrice env b)), c', txs)))"

section \<open>Notions used in the statements\<close>

text \<open>
  The state after line 69: the final balance logged and the pool given its allowance.
\<close>

definition approved :: "contract \<Rightarrow> address \<Rightarrow> uint256 \<Rightarrow> exec \<Rightarrow> exec" where
  "approved ct asset debt s =
     did (Approve asset (pool ct) debt)
       ((emit (DebugLog ''Final balance'' (balanceOf asset (this ct) (chain_st s))) s)
          \<lparr>chain_st := erc20_approve asset (this ct) (pool ct) debt (chain_st s)\<rparr>)"

text \<open>
  The low-level calls among the actions of a session, and the calls the trade loop makes
  for the indices from \<open>i\<close> up to \<open>k\<close>.
\<close>

definition trade_calls :: "action list \<Rightarrow> action list" where
  "trade_calls tr = filter (\<lambda>a. case a of Call t p \<Rightarrow> True | _ \<Rightarrow> False) tr"

definition invocations :: "address list \<Rightarrow> bytes list \<Rightarrow> nat \<Rightarrow> nat \<Rightarrow> action list" where
  "invocations path swapData i k = map (\<lambda>j. Call (path ! j) (swapData ! j)) [i..<k]"

subsection \<open>An example deployment\<close>

text \<open>
  A contract, a chain where every balance is 7, targets that always succeed and targets
  that always fail.
\<close>

abbreviation (input) ct_ex :: contract where
  "ct_ex \<equiv> \<lparr>this = 1, owner = 2, pool = 3, addressesProvider = 4\<rparr>"

abbreviation (input) c_ex :: chain where
  "c_ex \<equiv> \<lparr>balances = \<lambda>t a. 7, allowances = \<lambda>t a b. 0\<rparr>"

abbreviation (input) ext_ok :: ext_call where
  "ext_ok \<equiv> \<lambda>t p c. (True, c)"


text \<open>
  A bot configured for that contract, with the operator's wallet; a chain where every
  account holds 20 DAI and one where the contract holds none; a cycle in which the fee data
  cannot be fetched although the quotes diverge; the opportunity of those quotes.
\<close>

abbreviation (input) cfg_ex :: config where
  "cfg_ex \<equiv> \<lparr>AAVE_POOL = 3, FLASH_ARBITRAGE = 1, wallet = 2\<rparr>"

abbreviation (input) c_funded :: chain where
  "c_funded \<equiv> \<lparr>balances = \<lambda>t a. 20000000000000000000, allowances = \<lambda>t a b. 0\<rparr>"

abbreviation (input) c_unfunded :: chain where
  "c_unfunded \<equiv> \<lparr>balances = \<lambda>t a. if a = 1 then 0 else 20000000000000000000,
                   allowances = \<lambda>t a b. 0\<rparr>"

abbreviation (input) env_ex :: cycle_env where
  "env_ex \<equiv> \<lparr>now = 0, feeData = None, uniswapQuote = Some 10000000000000000000,
              sushiQuote = Some 10600000000000000000, loanReceipt = Some []\<rparr>"

abbreviation (input) bot_ex :: bot where
  "bot_ex \<equiv> \<lparr>gasHistory = [], profitHistory = []\<rparr>"

abbreviation (input) opp_ex :: opportunity where
  "opp_ex \<equiv> \<lparr>tokenA = DAI, tokenB = WETH, opp_amount = 10000000000000000000,
      buyFromDex = ''uniswap'', sellToDex = ''sushiswap'', buyPrice = 10000000000000000000,
      sellPrice = 10600000000000000000, estimatedProfit = 591000000000000000,
      priceDifference = 566, gasEstimate = 200000\<rparr>"

section \<open>Properties of the blob coding\<close>

lemma length_be_bytes [simp]: "length (be_bytes k n) = k"
  by (induction k arbitrary: n) auto

lemma length_abi_word [simp]: "length (abi_word n) = 32"
  by (simp add: abi_word_def)

lemma be_nat_snoc: "be_nat (bs @ [b]) = be_nat bs * 256 + unat b"
  by (simp add: be_nat_def)

lemma unat_byte_of_nat: "unat (of_nat (n mod 256) :: 8 word) = n mod 256"
  by (simp add: unat_of_nat)

lemma be_nat_be_bytes: "be_nat (be_bytes k n) = n mod 256 ^ k"
proof (induction k arbitrary: n)
  case 0
  show ?case by (simp add: be_nat_def)
next
  case (Suc k)
  have "be_nat (be_bytes (Suc k) n) = (n div 256) mod 256 ^ k * 256 + n mod 256"
    by (simp add: be_nat_snoc Suc unat_byte_of_nat)
  also have "\<dots> = n mod 256 ^ Suc k"
    by (simp add: mod_mult2_eq)
  finally show ?case .
qed

lemma be_nat_abi_word: "n < 2 ^ 256 \<Longrightarrow> be_nat (abi_word n) = n"
proof -
  assume "n < 2 ^ 256"
  moreover have "(256::nat) ^ 32 = 2 ^ 256" by simp
  ultimately show ?thesis by (simp add: abi_word_def be_nat_be_bytes)
qed

lemma read_word_at:
  assumes "drop off d = abi_word n @ rest" and "n < 2 ^ 256"
  shows "read_word d off = Some n"
proof -
  have "length (drop off d) \<ge> 32" using assms(1) by simp
  then have "off + 32 \<le> length d" by simp
  moreover have "take 32 (drop off d) = abi_word n" using assms(1) by simp
  ultimately show ?thesis using assms(2) by (simp add: read_word_def be_nat_abi_word)
qed


lemma read_addresses_at:
  "drop pos d = concat (map (\<lambda>a. abi_word (unat a)) ts) @ rest
     \<Longrightarrow> read_addresses d pos (length ts) = Some ts"
proof (induction ts arbitrary: pos)
  case Nil
  show ?case by simp
next
  case (Cons a ts)
  have lt: "unat a < 2 ^ 160" using unsigned_less [of a] by simp
  then have lt256: "unat a < 2 ^ 256"
    by (rule less_le_trans) simp
  from Cons.prems have d: "drop pos d = abi_word (unat a) @ (concat (map (\<lambda>a. abi_word (unat a)) ts) @ rest)"
    by simp
  have rw: "read_word d pos = Some (unat a)"
    by (rule read_word_at [OF d lt256])
  have "drop (pos + 32) d = drop 32 (drop pos d)"
    by (simp add: add.commute)
  then have "drop (pos + 32) d = concat (map (\<lambda>a. abi_word (unat a)) ts) @ rest"
    by (simp add: d)
  then have "read_addresses d (pos + 32) (length ts) = Some ts"
    by (rule Cons.IH)
  then show ?case using rw lt by simp
qed

lemma length_enc_bytes: "length (enc_bytes b) = 32 + length b + pad32 (length b)"
  by (simp add: enc_bytes_def)

lemma dec_bytes_at:
  assumes "drop pos d = enc_bytes b @ rest" and "length b < 2 ^ 256"
  shows "dec_bytes d pos = Some b"
proof -
  let ?pad = "replicate (pad32 (length b)) (0::8 word)"
  have d: "drop pos d = abi_word (length b) @ (b @ ?pad @ rest)"
    using assms(1) by (simp add: enc_bytes_def)
  have rw: "read_word d pos = Some (length b)"
    by (rule read_word_at [OF d assms(2)])
  have "length (drop pos d) \<ge> 32 + length b" by (simp only: d) simp
  then have le: "pos + 32 + length b \<le> length d" by simp
  have "drop (pos + 32) d = drop 32 (drop pos d)"
    by (simp add: add.commute)
  then have "drop (pos + 32) d = b @ ?pad @ rest"
    by (simp add: d)
  then have "take (length b) (drop (pos + 32) d) = b" by simp
  then show ?thesis using rw le by (simp add: dec_bytes_def)
qed

lemma read_bytes_elems_at:
  "drop hp d = concat (map abi_word (bytes_offsets off ps)) @ rest1
     \<Longrightarrow> drop (base + off) d = concat (map enc_bytes ps) @ rest2
     \<Longrightarrow> off + length (concat (map enc_bytes ps)) < 2 ^ 256
     \<Longrightarrow> read_bytes_elems d base hp (length ps) = Some ps"
proof (induction ps arbitrary: hp off rest1)
  case Nil
  show ?case by simp
next
  case (Cons p ps)
  let ?n = "length (enc_bytes p)"
  have bound: "off + (?n + length (concat (map enc_bytes ps))) < 2 ^ 256"
    using Cons.prems(3) by simp
  have off_lt: "off < 2 ^ 256" using bound by simp
  have p_lt: "length p < 2 ^ 256" using bound by (simp add: length_enc_bytes)
  have h: "drop hp d = abi_word off @ (concat (map abi_word (bytes_offsets (off + ?n) ps)) @ rest1)"
    using Cons.prems(1) by simp
  have rw: "read_word d hp = Some off"
    by (rule read_word_at [OF h off_lt])
  have t: "drop (base + off) d = enc_bytes p @ (concat (map enc_bytes ps) @ rest2)"
    using Cons.prems(2) by simp
  have db: "dec_bytes d (base + off) = Some p"
    by (rule dec_bytes_at [OF t p_lt])
  have "drop (hp + 32) d = drop 32 (drop hp d)"
    by (simp add: add.commute)
  then have h': "drop (hp + 32) d = concat (map abi_word (bytes_offsets (off + ?n) ps)) @ rest1"
    by (simp add: h)
  have "drop (base + (off + ?n)) d = drop ?n (drop (base + off) d)"
    by (simp add: add.commute add.assoc)
  then have t': "drop (base + (off + ?n)) d = concat (map enc_bytes ps) @ rest2"
    by (simp add: t)
  have "off + ?n + length (concat (map enc_bytes ps)) < 2 ^ 256"
    using bound by simp
  with h' t' have "read_bytes_elems d base (hp + 32) (length ps) = Some ps"
    by (rule Cons.IH)
  then show ?case using rw db by simp
qed

lemma length_bytes_offsets [simp]: "length (bytes_offsets off ps) = length ps"
  by (induction ps arbitrary: off) auto

lemma length_concat_words: "length (concat (map abi_word ns)) = 32 * length ns"
  by (induction ns) auto

lemma length_enc_address_array: "length (enc_address_array ts) = 32 + 32 * length ts"
  by (simp add: enc_address_array_def length_concat o_def) (induction ts, auto)

lemma dec_address_array_at:
  assumes "drop off d = enc_address_array ts @ rest" and "length ts < 2 ^ 256"
  shows "dec_address_array d off = Some ts"
proof -
  let ?body = "concat (map (\<lambda>a. abi_word (unat a)) ts)"
  have d: "drop off d = abi_word (length ts) @ (?body @ rest)"
    using assms(1) by (simp add: enc_address_array_def)
  have rw: "read_word d off = Some (length ts)"
    by (rule read_word_at [OF d assms(2)])
  have "length (drop off d) \<ge> 32 + 32 * length ts"
    by (simp only: assms(1)) (simp add: length_enc_address_array)
  then have le: "off + 32 + 32 * length ts \<le> length d" by simp
  have "drop (off + 32) d = drop 32 (drop off d)"
    by (simp add: add.commute)
  then have "drop (off + 32) d = ?body @ rest"
    by (simp add: d)
  then have "read_addresses d (off + 32) (length ts) = Some ts"
    by (rule read_addresses_at)
  then show ?thesis using rw le by (simp add: dec_address_array_def)
qed

lemma dec_bytes_array_at:
  assumes "drop off d = enc_bytes_array ps @ rest"
    and "length (enc_bytes_array ps) < 2 ^ 256"
  shows "dec_bytes_array d off = Some ps"
proof -
  let ?heads = "concat (map abi_word (bytes_offsets (32 * length ps) ps))"
  let ?tails = "concat (map enc_bytes ps)"
  have len: "length (enc_bytes_array ps) = 32 + 32 * length ps + length ?tails"
    by (simp add: enc_bytes_array_def length_concat_words)
  have n_lt: "length ps < 2 ^ 256" using assms(2) len by simp
  have d: "drop off d = abi_word (length ps) @ (?heads @ ?tails @ rest)"
    using assms(1) by (simp add: enc_bytes_array_def)
  have rw: "read_word d off = Some (length ps)"
    by (rule read_word_at [OF d n_lt])
  have "length (drop off d) \<ge> 32 + 32 * length ps"
    by (simp only: assms(1)) (simp add: len)
  then have le: "off + 32 + 32 * length ps \<le> length d" by simp
  have "drop (off + 32) d = drop 32 (drop off d)"
    by (simp add: add.commute)
  then have h: "drop (off + 32) d = ?heads @ (?tails @ rest)"
    by (simp add: d)
  have "drop (off + 32 + 32 * length ps) d = drop (32 * length ps) (drop (off + 32) d)"
    by (simp add: add.commute)
  then have t: "drop (off + 32 + 32 * length ps) d = ?tails @ rest"
    by (simp add: h length_concat_words)
  have b: "32 * length ps + length ?tails < 2 ^ 256"
    using assms(2) len by simp
  have "read_bytes_elems d (off + 32) (off + 32) (length ps) = Some ps"
    by (rule read_bytes_elems_at [OF h t b])
  then show ?thesis using rw le by (simp add: dec_bytes_array_def)
qed

text \<open>
  The decoder reads what the offsets point at and ignores what follows: it accepts the
  encoding of a triple with any bytes after it. So different blobs decode to the same
  triple, and re-encoding gives the blob back only for a blob that is itself an encoding.
\<close>

lemma abi_decode_encode_append:
  assumes "length (abi_encode m ts ps) < 2 ^ 256"
  shows "abi_decode (abi_encode m ts ps @ rest) = Some (m, ts, ps)"
proof -
  let ?d = "abi_encode m ts ps @ rest"
  let ?A = "enc_address_array ts"
  let ?B = "enc_bytes_array ps"
  let ?o2 = "96 + length ?A"
  have len: "length (abi_encode m ts ps) = 96 + length ?A + length ?B"
    by (simp add: abi_encode_def)
  have o2_lt: "?o2 < 2 ^ 256" and B_lt: "length ?B < 2 ^ 256"
    and ts_lt: "length ts < 2 ^ 256"
    using assms len by (simp_all add: length_enc_address_array)
  have m_lt: "unat m < 2 ^ 256" using unsigned_less [of m] by simp
  have d0: "drop 0 ?d = abi_word (unat m) @ (abi_word 96 @ abi_word ?o2 @ ?A @ ?B @ rest)"
    by (simp add: abi_encode_def)
  have d32: "drop 32 ?d = abi_word 96 @ (abi_word ?o2 @ ?A @ ?B @ rest)"
    by (simp add: abi_encode_def)
  have d64: "drop 64 ?d = abi_word ?o2 @ (?A @ ?B @ rest)"
    by (simp add: abi_encode_def)
  have d96: "drop 96 ?d = ?A @ (?B @ rest)"
    by (simp add: abi_encode_def)
  have do2: "drop ?o2 ?d = ?B @ rest"
    by (simp add: abi_encode_def)
  have r0: "read_word ?d 0 = Some (unat m)"
    by (rule read_word_at [OF d0 m_lt])
  have r32: "read_word ?d 32 = Some 96"
    by (rule read_word_at [OF d32]) simp
  have r64: "read_word ?d 64 = Some ?o2"
    by (rule read_word_at [OF d64 o2_lt])
  have a: "dec_address_array ?d 96 = Some ts"
    by (rule dec_address_array_at [OF d96 ts_lt])
  have b: "dec_bytes_array ?d ?o2 = Some ps"
    by (rule dec_bytes_array_at [OF do2 B_lt])
  show ?thesis
    unfolding abi_decode_def by (simp only: r0 r32 r64 a b option.case) simp
qed

lemma abi_decode_encode:
  assumes "length (abi_encode m ts ps) < 2 ^ 256"
  shows "abi_decode (abi_encode m ts ps) = Some (m, ts, ps)"
  using abi_decode_encode_append [OF assms, of "[]"] by simp

section \<open>Properties of the settlement contract\<close>

declare swap_loop.simps [simp del]

lemma executeOperation_reaches_settle:
  assumes "sender = pool ct" and "initiator = owner ct"
    and "abi_decode params = Some (minProfit, path, swapData)"
    and "swap_loop ext path swapData 0
           (emit (DebugLog ''Initial balance'' (balanceOf asset (this ct) (chain_st s))) s) = (Inr (), s2)"
  shows "executeOperation ct ext sender asset amount premium initiator params s =
           settle ct asset amount premium minProfit s2"
  using assms by (simp add: executeOperation_def)

lemma settle_overflow:
  "2 ^ 256 \<le> unat amount + unat premium \<Longrightarrow>
     settle ct asset amount premium minProfit s = (Inl (Panic 0x11), s)"
  by (simp add: settle_def)

lemma debt_unat:
  fixes amount premium :: uint256
  assumes "unat amount + unat premium < 2 ^ 256"
  shows "unat (amount + premium) = unat amount + unat premium"
  using assms unat_add_lem [of amount premium] by simp

lemma settle_insolvent:
  assumes "unat amount + unat premium < 2 ^ 256"
    and "unat (balanceOf asset (this ct) (chain_st s)) < unat amount + unat premium"
  shows "settle ct asset amount premium minProfit s =
           (Inl (Revert ''Insufficient funds to repay''),
            emit (DebugLog ''Final balance'' (balanceOf asset (this ct) (chain_st s))) s)"
  using assms by (simp add: settle_def Let_def word_le_nat_alt debt_unat)

lemma settle_solvent:
  assumes "unat amount + unat premium \<le> unat (balanceOf asset (this ct) (chain_st s))"
  shows "settle ct asset amount premium minProfit s =
           distribute ct asset (balanceOf asset (this ct) (chain_st s)) (amount + premium) minProfit
             (approved ct asset (amount + premium) s)"
proof -
  have "unat (balanceOf asset (this ct) (chain_st s)) < 2 ^ 256"
    using unsigned_less [of "balanceOf asset (this ct) (chain_st s)"] by simp
  with assms have no: "unat amount + unat premium < 2 ^ 256" by simp
  then have "amount + premium \<le> balanceOf asset (this ct) (chain_st s)"
    using assms by (simp add: word_le_nat_alt debt_unat)
  with no show ?thesis
    by (simp add: settle_def Let_def approved_def emit_def did_def)
qed

lemma balances_approve [simp]: "balances (erc20_approve t h sp a c) = balances c"
  by (simp add: erc20_approve_def)

lemma allowance_approve [simp]: "allowance t h sp (erc20_approve t h sp a c) = a"
  by (simp add: erc20_approve_def allowance_def)

lemma allowances_move [simp]: "allowances (move t src dst a c) = allowances c"
  by (simp add: move_def Let_def)

lemma chain_st_approved [simp]:
  "chain_st (approved ct asset debt s) = erc20_approve asset (this ct) (pool ct) debt (chain_st s)"
  by (simp add: approved_def did_def emit_def)

lemma trace_approved [simp]:
  "trace (approved ct asset debt s) = trace s @ [Approve asset (pool ct) debt]"
  by (simp add: approved_def did_def emit_def)

lemma events_approved [simp]:
  "events (approved ct asset debt s) =
     events s @ [DebugLog ''Final balance'' (balanceOf asset (this ct) (chain_st s))]"
  by (simp add: approved_def did_def emit_def)

lemma distribute_pays:
  assumes "debt < B" and "minProfit \<le> B - debt" and "balanceOf asset (this ct) (chain_st s) = B"
  shows "distribute ct asset B debt minProfit s =
           (Inr True, emit (ArbitrageProfit asset (B - debt))
              (did (Transfer asset (owner ct) (B - debt))
                 (s\<lparr>chain_st := move asset (this ct) (owner ct) (B - debt) (chain_st s)\<rparr>)))"
proof -
  have "B - debt \<le> B" using assms(1) by (simp add: word_sub_le less_imp_le)
  then have "\<not> balances (chain_st s) asset (this ct) < B - debt"
    using assms(3) by (simp add: balanceOf_def not_less)
  then show ?thesis using assms(1,2)
    by (simp add: distribute_def Let_def erc20_transfer_def)
qed

lemma distribute_keeps:
  assumes "\<not> (debt < B \<and> minProfit \<le> B - debt)"
  shows "distribute ct asset B debt minProfit s = (Inr True, s)"
  using assms by (auto simp: distribute_def Let_def)

lemma length_abi_encode:
  "length (abi_encode m ts ps) =
     160 + 32 * length ts + 32 * length ps + length (concat (map enc_bytes ps))"
  by (simp add: abi_encode_def length_enc_address_array enc_bytes_array_def length_concat_words)

lemma decode_empty: "abi_decode (abi_encode m [] []) = Some (m, [], [])"
  by (rule abi_decode_encode) (simp add: length_abi_encode)

lemma swap_loop_empty: "swap_loop ext path [] 0 s = (Inr (), s)"
  by (simp add: swap_loop.simps)

text \<open>
  C3 (amended). A session that has completed its trade invocations fails with an
  arithmetic panic when amount + premium does not fit in 256 bits, fails with
  "Insufficient funds to repay" when the final balance is below amount + premium, and
  otherwise returns true with the pool holding an allowance of exactly amount + premium.
  In both failures nothing persists.
\<close>

theorem solvency_check:
  assumes "sender = pool ct" and "initiator = owner ct"
    and "abi_decode params = Some (minProfit, path, swapData)"
    and "swap_loop ext path swapData 0
           (emit (DebugLog ''Initial balance'' (balanceOf asset (this ct) c)) (start_exec c)) = (Inr (), s2)"
  shows "let r = executeOperation ct ext sender asset amount premium initiator params (start_exec c);
             finalBalance = balanceOf asset (this ct) (chain_st s2)
         in if 2 ^ 256 \<le> unat amount + unat premium
            then fst r = Inl (Panic 0x11) \<and> persisted c r = c
            else if unat finalBalance < unat amount + unat premium
            then fst r = Inl (Revert ''Insufficient funds to repay'') \<and> persisted c r = c
            else fst r = Inr True
               \<and> allowance asset (this ct) (pool ct) (persisted c r) = amount + premium
               \<and> Approve asset (pool ct) (amount + premium) \<in> set (trace (snd r))"
proof -
  let ?r = "executeOperation ct ext sender asset amount premium initiator params (start_exec c)"
  let ?B = "balanceOf asset (this ct) (chain_st s2)"
  let ?debt = "amount + premium"
  have c: "chain_st (start_exec c) = c" by (simp add: start_exec_def)
  have r: "?r = settle ct asset amount premium minProfit s2"
    using assms by (intro executeOperation_reaches_settle) (simp_all add: c)
  consider (over) "2 ^ 256 \<le> unat amount + unat premium"
    | (low) "unat amount + unat premium < 2 ^ 256" "unat ?B < unat amount + unat premium"
    | (ok) "unat amount + unat premium \<le> unat ?B"
    by linarith
  then show ?thesis
  proof cases
    case over
    then show ?thesis by (simp add: r settle_overflow persisted_def)
  next
    case low
    then show ?thesis by (simp add: r settle_insolvent persisted_def)
  next
    case ok
    have "unat ?B < 2 ^ 256" using unsigned_less [of ?B] by simp
    with ok have no: "\<not> 2 ^ 256 \<le> unat amount + unat premium" by simp
    have r': "?r = distribute ct asset ?B ?debt minProfit (approved ct asset ?debt s2)"
      by (simp add: r settle_solvent [OF ok])
    show ?thesis
    proof (cases "?debt < ?B \<and> minProfit \<le> ?B - ?debt")
      case True
      have "balanceOf asset (this ct) (chain_st (approved ct asset ?debt s2)) = ?B"
        by (simp add: balanceOf_def)
      with True have "?r = (Inr True, emit (ArbitrageProfit asset (?B - ?debt))
              (did (Transfer asset (owner ct) (?B - ?debt))
                 ((approved ct asset ?debt s2)\<lparr>chain_st := move asset (this ct) (owner ct) (?B - ?debt)
                     (chain_st (approved ct asset ?debt s2))\<rparr>)))"
        by (simp add: r' distribute_pays)
      then show ?thesis using ok no
        by (simp add: persisted_def emit_def did_def allowance_def erc20_approve_def)
    next
      case False
      then have "?r = (Inr True, approved ct asset ?debt s2)"
        by (simp add: r' distribute_keeps)
      then show ?thesis using ok no
        by (simp add: persisted_def)
    qed
  qed
qed

lemma fixture_loop:
  "swap_loop ext_ok [] [] 0
     (emit (DebugLog ''Initial balance'' (balanceOf 6 (this ct_ex) c_ex)) (start_exec c_ex))
   = (Inr (), emit (DebugLog ''Initial balance'' (balanceOf 6 (this ct_ex) c_ex)) (start_exec c_ex))"
  by (rule swap_loop_empty)

theorem solvency_check_witness:
  "fst (executeOperation ct_ex ext_ok 3 6 115792089237316195423570985008687907853269984665640564039457584007913129639935 1 2 (abi_encode 0 [] []) (start_exec c_ex)) = Inl (Panic 0x11)
   \<and> fst (executeOperation ct_ex ext_ok 3 6 10 1 2 (abi_encode 0 [] []) (start_exec c_ex))
       = Inl (Revert ''Insufficient funds to repay'')
   \<and> persisted c_ex (executeOperation ct_ex ext_ok 3 6 10 1 2 (abi_encode 0 [] []) (start_exec c_ex)) = c_ex
   \<and> fst (executeOperation ct_ex ext_ok 3 6 5 1 2 (abi_encode 0 [] []) (start_exec c_ex)) = Inr True
   \<and> allowance 6 1 3 (persisted c_ex
        (executeOperation ct_ex ext_ok 3 6 5 1 2 (abi_encode 0 [] []) (start_exec c_ex))) = 6"
  using solvency_check [of 3 ct_ex 2 "abi_encode 0 [] []" 0 "[]" "[]" ext_ok 6 c_ex _ 115792089237316195423570985008687907853269984665640564039457584007913129639935 1, OF _ _ decode_empty fixture_loop]
    solvency_check [of 3 ct_ex 2 "abi_encode 0 [] []" 0 "[]" "[]" ext_ok 6 c_ex _ 10 1, OF _ _ decode_empty fixture_loop]
    solvency_check [of 3 ct_ex 2 "abi_encode 0 [] []" 0 "[]" "[]" ext_ok 6 c_ex _ 5 1, OF _ _ decode_empty fixture_loop]
  by (simp add: Let_def balanceOf_def emit_def start_exec_def)

text \<open>
  C3 as stated fails when amount + premium overflows: the final balance 7 is below the
  sum, the trades have completed, and the session fails with the panic 0x11 instead of
  "Insufficient funds to repay".
\<close>

theorem solvency_check_counterexample:
  "unat (balanceOf 6 (this ct_ex) c_ex)
     < unat (115792089237316195423570985008687907853269984665640564039457584007913129639935 :: uint256)
       + unat (1 :: uint256)
   \<and> fst (executeOperation ct_ex ext_ok 3 6
          115792089237316195423570985008687907853269984665640564039457584007913129639935 1 2
          (abi_encode 0 [] []) (start_exec c_ex)) = Inl (Panic 0x11)
   \<and> fst (executeOperation ct_ex ext_ok 3 6
          115792089237316195423570985008687907853269984665640564039457584007913129639935 1 2
          (abi_encode 0 [] []) (start_exec c_ex)) \<noteq> Inl (Revert ''Insufficient funds to repay'')"
proof -
  have "executeOperation ct_ex ext_ok 3 6
          115792089237316195423570985008687907853269984665640564039457584007913129639935 1 2
          (abi_encode 0 [] []) (start_exec c_ex)
        = settle ct_ex 6 115792089237316195423570985008687907853269984665640564039457584007913129639935 1 0
            (emit (DebugLog ''Initial balance'' (balanceOf 6 (this ct_ex) c_ex)) (start_exec c_ex))"
    by (rule executeOperation_reaches_settle [OF _ _ decode_empty])
       (simp_all add: swap_loop_empty start_exec_def)
  then show ?thesis
    by (simp add: settle_overflow balanceOf_def)
qed

text \<open>
  C2. A call of executeOperation whose caller is not the pool, or whose initiator is not
  the operator, reverts with "Unauthorized" (caller) or "Unauthorized initiator" and
  leaves the execution state as it was: no event, no call, no ledger change, whatever the
  blob and whatever the trade targets would do.
\<close>

theorem executeOperation_unauthorized:
  assumes "sender \<noteq> pool ct \<or> initiator \<noteq> owner ct"
  shows "executeOperation ct ext sender asset amount premium initiator params s =
           (Inl (Revert (if sender \<noteq> pool ct then ''Unauthorized'' else ''Unauthorized initiator'')), s)
         \<and> persisted (chain_st s) (executeOperation ct ext sender asset amount premium initiator params s)
             = chain_st s"
  using assms by (auto simp: executeOperation_def persisted_def)

theorem executeOperation_unauthorized_witness:
  "executeOperation ct_ex ext_ok 5 6 10 1 2 [] (start_exec c_ex)
     = (Inl (Revert ''Unauthorized''), start_exec c_ex)
   \<and> executeOperation ct_ex ext_ok 3 6 10 1 9 [] (start_exec c_ex)
     = (Inl (Revert ''Unauthorized initiator''), start_exec c_ex)"
  using executeOperation_unauthorized [of 5 ct_ex 2 ext_ok 6 10 1 "[]" "start_exec c_ex"]
    executeOperation_unauthorized [of 3 ct_ex 9 ext_ok 6 10 1 "[]" "start_exec c_ex"]
  by simp

text \<open>
  C1 (amended). A session that reaches the distribution with final balance B and debt
  amount + premium returns true. When B exceeds the debt and the surplus B - debt is at
  least the decoded minimum profit, exactly the surplus is transferred from the contract to
  the operator after the approval and the fact ArbitrageProfit(asset, surplus) is recorded.
  Otherwise (the surplus is below the minimum, or it is zero) nothing is transferred, no
  profit fact is recorded and the contract keeps its whole balance B.
\<close>

theorem distribute_step:
  assumes "sender = pool ct" and "initiator = owner ct"
    and "abi_decode params = Some (minProfit, path, swapData)"
    and "swap_loop ext path swapData 0
           (emit (DebugLog ''Initial balance'' (balanceOf asset (this ct) c)) (start_exec c)) = (Inr (), s2)"
    and "unat amount + unat premium \<le> unat (balanceOf asset (this ct) (chain_st s2))"
  shows "let r = executeOperation ct ext sender asset amount premium initiator params (start_exec c);
             B = balanceOf asset (this ct) (chain_st s2);
             debt = amount + premium;
             repaid = erc20_approve asset (this ct) (pool ct) debt (chain_st s2)
         in fst r = Inr True
          \<and> (if debt < B \<and> minProfit \<le> B - debt
             then persisted c r = move asset (this ct) (owner ct) (B - debt) repaid
                \<and> trace (snd r) = trace s2 @ [Approve asset (pool ct) debt, Transfer asset (owner ct) (B - debt)]
                \<and> events (snd r) = events s2 @ [DebugLog ''Final balance'' B, ArbitrageProfit asset (B - debt)]
                \<and> balanceOf asset (this ct) (persisted c r) = (if owner ct = this ct then B else debt)
                \<and> balanceOf asset (owner ct) (persisted c r)
                     = (if owner ct = this ct then B else balanceOf asset (owner ct) (chain_st s2) + (B - debt))
             else persisted c r = repaid
                \<and> trace (snd r) = trace s2 @ [Approve asset (pool ct) debt]
                \<and> events (snd r) = events s2 @ [DebugLog ''Final balance'' B]
                \<and> balanceOf asset (this ct) (persisted c r) = B)"
proof -
  let ?r = "executeOperation ct ext sender asset amount premium initiator params (start_exec c)"
  let ?B = "balanceOf asset (this ct) (chain_st s2)"
  let ?debt = "amount + premium"
  have c: "chain_st (start_exec c) = c" by (simp add: start_exec_def)
  have "?r = settle ct asset amount premium minProfit s2"
    using assms(1-4) by (intro executeOperation_reaches_settle) (simp_all add: c)
  then have r: "?r = distribute ct asset ?B ?debt minProfit (approved ct asset ?debt s2)"
    by (simp add: settle_solvent [OF assms(5)])
  show ?thesis
  proof (cases "?debt < ?B \<and> minProfit \<le> ?B - ?debt")
    case True
    have "balanceOf asset (this ct) (chain_st (approved ct asset ?debt s2)) = ?B"
      by (simp add: balanceOf_def)
    with True have "?r = (Inr True, emit (ArbitrageProfit asset (?B - ?debt))
            (did (Transfer asset (owner ct) (?B - ?debt))
               ((approved ct asset ?debt s2)\<lparr>chain_st := move asset (this ct) (owner ct) (?B - ?debt)
                   (chain_st (approved ct asset ?debt s2))\<rparr>)))"
      by (simp add: r distribute_pays)
    then show ?thesis using True
      by (simp add: persisted_def emit_def did_def Let_def balanceOf_def move_def)
  next
    case False
    then have "?r = (Inr True, approved ct asset ?debt s2)"
      by (simp add: r distribute_keeps)
    then show ?thesis using False
      by (simp add: persisted_def Let_def balanceOf_def)
  qed
qed


theorem distribute_step_witness:
  "fst (executeOperation ct_ex ext_ok 3 6 5 1 2 (abi_encode 0 [] []) (start_exec c_ex)) = Inr True
   \<and> trace (snd (executeOperation ct_ex ext_ok 3 6 5 1 2 (abi_encode 0 [] []) (start_exec c_ex)))
       = [Approve 6 3 6, Transfer 6 2 1]
   \<and> events (snd (executeOperation ct_ex ext_ok 3 6 5 1 2 (abi_encode 0 [] []) (start_exec c_ex)))
       = [DebugLog ''Initial balance'' 7, DebugLog ''Final balance'' 7, ArbitrageProfit 6 1]
   \<and> balanceOf 6 1 (persisted c_ex
        (executeOperation ct_ex ext_ok 3 6 5 1 2 (abi_encode 0 [] []) (start_exec c_ex))) = 6
   \<and> balanceOf 6 2 (persisted c_ex
        (executeOperation ct_ex ext_ok 3 6 5 1 2 (abi_encode 0 [] []) (start_exec c_ex))) = 8
   \<and> trace (snd (executeOperation ct_ex ext_ok 3 6 5 1 2 (abi_encode 5 [] []) (start_exec c_ex)))
       = [Approve 6 3 6]
   \<and> events (snd (executeOperation ct_ex ext_ok 3 6 5 1 2 (abi_encode 5 [] []) (start_exec c_ex)))
       = [DebugLog ''Initial balance'' 7, DebugLog ''Final balance'' 7]
   \<and> balanceOf 6 1 (persisted c_ex
        (executeOperation ct_ex ext_ok 3 6 5 1 2 (abi_encode 5 [] []) (start_exec c_ex))) = 7"
  using distribute_step [of 3 ct_ex 2 "abi_encode 0 [] []" 0 "[]" "[]" ext_ok 6 c_ex _ 5 1, OF _ _ decode_empty fixture_loop]
    distribute_step [of 3 ct_ex 2 "abi_encode 5 [] []" 5 "[]" "[]" ext_ok 6 c_ex _ 5 1, OF _ _ decode_empty fixture_loop]
  by (simp add: Let_def balanceOf_def emit_def start_exec_def word_le_nat_alt move_def)

text \<open>
  C1 as stated fails for a zero surplus with a minimum profit of zero: the surplus
  7 - (6 + 1) = 0 is not below the minimum 0, yet the session makes no transfer and
  records no profit fact.
\<close>

theorem distribute_step_counterexample:
  "(0 :: uint256) \<le> balanceOf 6 (this ct_ex) c_ex - (6 + 1)
   \<and> fst (executeOperation ct_ex ext_ok 3 6 6 1 2 (abi_encode 0 [] []) (start_exec c_ex)) = Inr True
   \<and> trace (snd (executeOperation ct_ex ext_ok 3 6 6 1 2 (abi_encode 0 [] []) (start_exec c_ex)))
       = [Approve 6 3 7]
   \<and> events (snd (executeOperation ct_ex ext_ok 3 6 6 1 2 (abi_encode 0 [] []) (start_exec c_ex)))
       = [DebugLog ''Initial balance'' 7, DebugLog ''Final balance'' 7]"
proof -
  let ?s1 = "emit (DebugLog ''Initial balance'' (balanceOf 6 (this ct_ex) c_ex)) (start_exec c_ex)"
  have "executeOperation ct_ex ext_ok 3 6 6 1 2 (abi_encode 0 [] []) (start_exec c_ex)
        = settle ct_ex 6 6 1 0 ?s1"
    by (rule executeOperation_reaches_settle [OF _ _ decode_empty])
       (simp_all add: swap_loop_empty start_exec_def)
  also have "\<dots> = distribute ct_ex 6 (balanceOf 6 (this ct_ex) (chain_st ?s1)) (6 + 1) 0
                     (approved ct_ex 6 (6 + 1) ?s1)"
    by (rule settle_solvent) (simp add: balanceOf_def emit_def start_exec_def)
  also have "\<dots> = (Inr True, approved ct_ex 6 (6 + 1) ?s1)"
    by (rule distribute_keeps) (simp add: balanceOf_def emit_def start_exec_def)
  finally show ?thesis
    by (simp add: balanceOf_def emit_def start_exec_def)
qed





lemma trade_calls_Nil [simp]: "trade_calls [] = []"
  by (simp add: trade_calls_def)

lemma trade_calls_invocations [simp]:
  "trade_calls (invocations path swapData i k) = invocations path swapData i k"
  by (simp add: trade_calls_def invocations_def filter_map o_def)

lemma invocations_empty [simp]: "invocations path swapData i i = []"
  by (simp add: invocations_def)














section \<open>Properties of the bot\<close>

lemma bigint_div_nonneg: "0 \<le> a \<Longrightarrow> 0 < b \<Longrightarrow> bigint_div a b = Inr (a div b)"
  by (cases "a = 0") (simp_all add: bigint_div_def)

text \<open>
  C4. For positive quotes qa, qb and a notional n that is not negative, the evaluator
  returns an opportunity exactly when the divergence |qa - qb| * 10000 / max(qa, qb) is at
  least 50 basis points and max(qa, qb) - min(qa, qb) - n * 9 / 10000 is at least 10^17;
  the estimated profit of that opportunity is this difference, which is also its value in
  unsigned arithmetic; in every other case, so below the divergence threshold whatever the
  amounts, it returns none.
\<close>

theorem analyzeOpportunity_iff:
  assumes "0 < qa" and "0 < qb" and "0 \<le> n"
  shows "let diffBps = \<bar>qa - qb\<bar> * 10000 div max qa qb;
             profit = max qa qb - min qa qb - n * 9 div 10000;
             r = analyzeOpportunity n \<lparr>q_amount = qa, q_source = sa\<rparr> \<lparr>q_amount = qb, q_source = sb\<rparr> tA tB
         in if 50 \<le> diffBps \<and> 10 ^ 17 \<le> profit
            then (\<exists>opp. r = Inr (Some opp) \<and> estimatedProfit opp = profit
                    \<and> estimatedProfit opp
                        = int (nat (max qa qb) - nat (min qa qb) - nat (n * 9 div 10000)))
            else r = Inr None"
proof -
  have fee: "bigint_div (n * 9) 10000 = Inr (n * 9 div 10000)"
    using assms(3) by (intro bigint_div_nonneg) simp_all
  show ?thesis
  proof (cases "qa > qb")
    case True
    then have d: "bigint_div ((qa - qb) * 10000) qa = Inr ((qa - qb) * 10000 div qa)"
      using assms(1) by (intro bigint_div_nonneg) simp_all
    from True have m: "max qa qb = qa" "min qa qb = qb" "\<bar>qa - qb\<bar> = qa - qb" by simp_all
    show ?thesis using True assms
      by (simp add: analyzeOpportunity_def Let_def d fee m MIN_PRICE_DIFFERENCE_def MIN_PROFIT_WEI_def
          not_less nat_diff_distrib del: left_diff_distrib_numeral right_diff_distrib_numeral)
  next
    case False
    then have d: "bigint_div ((qb - qa) * 10000) qb = Inr ((qb - qa) * 10000 div qb)"
      using assms(2) by (intro bigint_div_nonneg) simp_all
    from False have m: "max qa qb = qb" "min qa qb = qa" "\<bar>qa - qb\<bar> = qb - qa" by simp_all
    show ?thesis using False assms
      by (simp add: analyzeOpportunity_def Let_def d fee m MIN_PRICE_DIFFERENCE_def MIN_PROFIT_WEI_def
          not_less nat_diff_distrib del: left_diff_distrib_numeral right_diff_distrib_numeral)
  qed
qed


theorem analyzeOpportunity_iff_witness:
  "(\<exists>opp. analyzeOpportunity 10000000000000000000
            \<lparr>q_amount = 10000000000000000000, q_source = ''uniswap''\<rparr>
            \<lparr>q_amount = 10600000000000000000, q_source = ''sushiswap''\<rparr> DAI WETH = Inr (Some opp)
          \<and> estimatedProfit opp = 591000000000000000)
   \<and> analyzeOpportunity 10000000000000000000
         \<lparr>q_amount = 10000000000000000000, q_source = ''uniswap''\<rparr>
         \<lparr>q_amount = 10020000000000000000, q_source = ''sushiswap''\<rparr> DAI WETH = Inr None"
  using analyzeOpportunity_iff [of 10000000000000000000 10600000000000000000 10000000000000000000
      "''uniswap''" "''sushiswap''" DAI WETH]
    analyzeOpportunity_iff [of 10000000000000000000 10020000000000000000 10000000000000000000
      "''uniswap''" "''sushiswap''" DAI WETH]
  by (simp add: Let_def)

text \<open>
  C8. When the contract already holds at least 5 DAI, the funding guard returns without
  any transaction and leaves the chain (all balances and allowances) as it was. Whenever
  it does submit transactions, the contract's balance was below 5 DAI, and the
  transactions are the approval, followed by the funding when that succeeds.
\<close>

theorem ensureContractFunding_idempotent:
  "let r = ensureContractFunding cfg ct c;
       txs = snd (snd r);
       approve = TxApprove DAI (FLASH_ARBITRAGE cfg) (10 * 10 ^ 18);
       fund = TxFundContract DAI (10 * 10 ^ 18)
   in (5 * 10 ^ 18 \<le> balanceOf DAI (FLASH_ARBITRAGE cfg) c \<longrightarrow> r = (Inr (), c, []))
    \<and> (txs \<noteq> [] \<longrightarrow> balanceOf DAI (FLASH_ARBITRAGE cfg) c < 5 * 10 ^ 18
          \<and> (txs = [approve] \<or> txs = [approve, fund]))"
  by (auto simp: ensureContractFunding_def Let_def not_less split: sum.splits)

lemma fund_ex:
  "ensureContractFunding cfg_ex ct_ex c_unfunded =
     (Inr (),
      move DAI 2 1 (10 * 10 ^ 18)
        (erc20_approve DAI 2 1 0 (erc20_approve DAI 2 1 (10 * 10 ^ 18) c_unfunded)),
      [TxApprove DAI 1 (10 * 10 ^ 18), TxFundContract DAI (10 * 10 ^ 18)])"
  by (simp add: ensureContractFunding_def Let_def balanceOf_def fundContract_def
      erc20_transferFrom_def erc20_approve_def start_exec_def did_def word_less_nat_alt)


theorem ensureContractFunding_idempotent_witness:
  "ensureContractFunding cfg_ex ct_ex c_funded = (Inr (), c_funded, [])
   \<and> snd (snd (ensureContractFunding cfg_ex ct_ex c_unfunded))
       = [TxApprove DAI 1 (10 * 10 ^ 18), TxFundContract DAI (10 * 10 ^ 18)]
   \<and> balanceOf DAI 1 c_unfunded < 5 * 10 ^ 18"
  using ensureContractFunding_idempotent [of cfg_ex ct_ex c_funded]
    ensureContractFunding_idempotent [of cfg_ex ct_ex c_unfunded] fund_ex
  by (simp add: Let_def balanceOf_def word_le_nat_alt)

text \<open>
  A second run after a successful one does nothing: a top-up of 10 DAI on a balance
  below 5 DAI cannot overflow and reaches the minimum, for a guard configured with the
  contract's own address and a wallet that is not the contract.
\<close>

lemma topped_up:
  fixes b :: uint256
  assumes "b < 5 * 10 ^ 18"
  shows "5 * 10 ^ 18 \<le> b + 10 * 10 ^ 18"
proof -
  have b: "unat b < 5 * 10 ^ 18"
    using assms by (simp add: word_less_nat_alt)
  have t: "unat (10 * 10 ^ 18 :: uint256) = 10 * 10 ^ 18" by simp
  have "unat b + unat (10 * 10 ^ 18 :: uint256) < 2 ^ LENGTH(256)"
    using b by (simp only: t) simp
  then have "unat (b + 10 * 10 ^ 18) = unat b + 10 * 10 ^ 18"
    using unat_add_lem [of b "10 * 10 ^ 18"] by simp
  then show ?thesis
    by (simp add: word_le_nat_alt)
qed

lemma ensureContractFunding_twice:
  assumes "ensureContractFunding cfg ct c = (Inr (), c', txs)"
    and "this ct = FLASH_ARBITRAGE cfg" and "wallet cfg \<noteq> this ct"
  shows "ensureContractFunding cfg ct c' = (Inr (), c', [])"
proof (cases "balanceOf DAI (FLASH_ARBITRAGE cfg) c < 5 * 10 ^ 18")
  case False
  with assms(1) have "c' = c"
    by (simp add: ensureContractFunding_def Let_def)
  with False show ?thesis
    by (simp add: ensureContractFunding_def Let_def)
next
  case True
  let ?a = "10 * 10 ^ 18 :: uint256"
  let ?c1 = "erc20_approve DAI (wallet cfg) (FLASH_ARBITRAGE cfg) ?a c"
  from True assms(1) obtain c2 where
    tf: "erc20_transferFrom DAI (this ct) (wallet cfg) (this ct) ?a ?c1 = Some c2" and c': "c' = c2"
    by (auto simp: ensureContractFunding_def Let_def fundContract_def start_exec_def did_def
        split: if_splits option.splits sum.splits)
  from tf assms(2,3) have "balanceOf DAI (FLASH_ARBITRAGE cfg) c2
      = balanceOf DAI (FLASH_ARBITRAGE cfg) c + ?a"
    by (auto simp: erc20_transferFrom_def move_def Let_def balanceOf_def erc20_approve_def
        split: if_splits)
  with topped_up [OF True] have "5 * 10 ^ 18 \<le> balanceOf DAI (FLASH_ARBITRAGE cfg) c'"
    by (simp add: c')
  then show ?thesis
    by (simp add: ensureContractFunding_def Let_def not_less [symmetric])
qed

text \<open>
  C10. When the fee data cannot be fetched, getCurrentGasPrice returns the fallback 50 and
  leaves the history alone; the ceiling is 25 gwei; the cycle ends at the gas check, its
  only request being the fee data: no quote is asked for and no loan is submitted.
\<close>

theorem gas_fallback_ends_cycle:
  assumes "feeData env = None"
  shows "getCurrentGasPrice env b = (50, b)
       \<and> gwei MAX_GAS_PRICE = 25
       \<and> executeTradingCycle cfg env b = (b, [GetFeeData])"
  using assms
  by (simp add: getCurrentGasPrice_def executeTradingCycle_def gwei_def MAX_GAS_PRICE_def)

theorem gas_fallback_ends_cycle_witness:
  "feeData env_ex = None
   \<and> getCurrentGasPrice env_ex bot_ex = (50, bot_ex)
   \<and> executeTradingCycle cfg_ex env_ex bot_ex = (bot_ex, [GetFeeData])"
  using gas_fallback_ends_cycle [of env_ex bot_ex cfg_ex]
  by simp

lemma step_exited: "exited s \<Longrightarrow> step e s = s"
  by (cases e) simp_all

lemma run_exited: "exited s \<Longrightarrow> run evs s = s"
  by (induction evs) (simp_all add: step_exited)

text \<open>
  C9 (amended). After SIGINT, whose handler stops the bot and exits the process, no
  trading cycle is ever executed again. A running flag that is false in a live process
  (after a startup failure, or after stop() alone) is not terminal: the next tick of the
  restart timer calls start(), which sets the flag, and once the startup checks pass a
  trading cycle is executed.
\<close>

theorem stopped_until_restart:
  "cycles (run evs (step Sigint s)) = cycles s
   \<and> (\<not> exited s \<and> \<not> isRunning s \<longrightarrow>
        isRunning (step Tick s)
        \<and> cycles (run [Tick, StartupDone (length (tasks s)) True] s) = Suc (cycles s))"
proof -
  have "exited (step Sigint s)" by simp
  then have "run evs (step Sigint s) = step Sigint s" by (rule run_exited)
  then have "cycles (run evs (step Sigint s)) = cycles s" by simp
  then show ?thesis
    by (simp add: loop_top_def nth_append)
qed

theorem stopped_until_restart_witness:
  "cycles (run [Tick, StartupDone 0 True, CycleDone 0, Wake 0] (step Sigint initial)) = 0
   \<and> \<not> exited (run [Tick, StartupDone 0 False] initial)
   \<and> \<not> isRunning (run [Tick, StartupDone 0 False] initial)
   \<and> cycles (run [Tick, StartupDone 0 True] (run [Tick, StartupDone 0 False] initial)) = 1"
  using stopped_until_restart [of "[Tick, StartupDone 0 True, CycleDone 0, Wake 0]" initial]
    stopped_until_restart [of "[]" "run [Tick, StartupDone 0 False] initial"]
  by (simp add: initial_def remove_task_def)

text \<open>
  C9 as stated fails. After a startup failure the flag is false and no activation is
  left, and the next timer tick with passing startup checks executes a trading cycle; the
  same happens after stop() has ended the loop.
\<close>

theorem stopped_until_restart_counterexample:
  "\<not> isRunning (run [Tick, StartupDone 0 False] initial)
   \<and> tasks (run [Tick, StartupDone 0 False] initial) = []
   \<and> cycles (run [Tick, StartupDone 0 False] initial) = 0
   \<and> cycles (run ([Tick, StartupDone 0 False] @ [Tick, StartupDone 0 True]) initial) = 1
   \<and> \<not> isRunning (run [Tick, StartupDone 0 True, CycleDone 0, Stop, Wake 0] initial)
   \<and> tasks (run [Tick, StartupDone 0 True, CycleDone 0, Stop, Wake 0] initial) = []
   \<and> cycles (run [Tick, StartupDone 0 True, CycleDone 0, Stop, Wake 0] initial) = 1
   \<and> cycles (run ([Tick, StartupDone 0 True, CycleDone 0, Stop, Wake 0] @ [Tick, StartupDone 0 True])
        initial) = 2"
  by (simp add: initial_def remove_task_def loop_top_def)

lemma operator_only_actions:
  assumes "sender \<noteq> owner ct"
  shows "dispatch ct ext sender (FundContract token amount) s = (Inl (Revert ''Only owner''), s)"
    and "dispatch ct ext sender (WithdrawToken token) s = (Inl (Revert ''Only owner''), s)"
  using assms by (simp_all add: fundContract_def withdrawToken_def as_ret_def)

text \<open>
  C7, at its failing input. The contract declares fundContract and withdrawToken, which
  revert with "Only owner" for any other caller (operator_only_actions), but no
  emergencyWithdraw: a call of emergencyWithdraw(address,uint256) reverts without data
  for every caller, the operator included.
\<close>

theorem emergencyWithdraw_absent:
  "dispatch ct ext sender (Other ''emergencyWithdraw(address,uint256)'' args) s = (Inl RevertNoData, s)
   \<and> dispatch ct ext (owner ct) (Other ''emergencyWithdraw(address,uint256)'' args) s
       = (Inl RevertNoData, s)"
  by simp

lemma uint_profit:
  assumes "0 \<le> p" and "p < 2 ^ 256"
  shows "uint (word_of_int p :: uint256) = p"
  using assms by (simp add: uint_word_of_int take_bit_int_eq_self)

text \<open>
  C5. Decoding the encoding of a triple (minimum profit, targets, payloads) gives the
  triple back, and encoding the decoded triple gives the blob back, for every blob that is
  the encoding of a triple (of a length that fits a 256-bit word). In particular the blob
  the bot builds for an opportunity decodes on the contract's side to the estimated profit,
  the two routers and two empty payloads.
\<close>

theorem blob_round_trip:
  "(length (abi_encode m ts ps) < 2 ^ 256 \<longrightarrow>
      abi_decode (abi_encode m ts ps) = Some (m, ts, ps)
      \<and> map_option (\<lambda>(m', ts', ps'). abi_encode m' ts' ps') (abi_decode (abi_encode m ts ps))
          = Some (abi_encode m ts ps))
   \<and> (encodeArbitrageParams opp = Some blob \<longrightarrow>
        (\<exists>minProfit path swapData.
           abi_decode blob = Some (minProfit, path, swapData)
           \<and> uint minProfit = estimatedProfit opp
           \<and> path = [if buyFromDex opp = ''uniswap'' then UNISWAP_V3_ROUTER else SUSHISWAP_ROUTER,
                      if sellToDex opp = ''uniswap'' then UNISWAP_V3_ROUTER else SUSHISWAP_ROUTER]
           \<and> swapData = [[], []]
           \<and> abi_encode minProfit path swapData = blob))"
proof (intro conjI impI)
  assume len: "length (abi_encode m ts ps) < 2 ^ 256"
  show "abi_decode (abi_encode m ts ps) = Some (m, ts, ps)"
    by (rule abi_decode_encode [OF len])
  then show "map_option (\<lambda>(m', ts', ps'). abi_encode m' ts' ps') (abi_decode (abi_encode m ts ps))
               = Some (abi_encode m ts ps)"
    by simp
next
  let ?path = "[if buyFromDex opp = ''uniswap'' then UNISWAP_V3_ROUTER else SUSHISWAP_ROUTER,
                if sellToDex opp = ''uniswap'' then UNISWAP_V3_ROUTER else SUSHISWAP_ROUTER]"
  let ?m = "word_of_int (estimatedProfit opp) :: uint256"
  assume enc: "encodeArbitrageParams opp = Some blob"
  then have range: "0 \<le> estimatedProfit opp" "estimatedProfit opp < 2 ^ 256"
    and blob: "blob = abi_encode ?m ?path [[], []]"
    by (auto simp: encodeArbitrageParams_def Let_def split: if_splits)
  have "length (abi_encode ?m ?path [[], []]) < 2 ^ 256"
    by (simp add: length_abi_encode length_enc_bytes pad32_def)
  then have "abi_decode blob = Some (?m, ?path, [[], []])"
    unfolding blob by (rule abi_decode_encode)
  moreover have "uint ?m = estimatedProfit opp"
    using range by (rule uint_profit)
  ultimately show "\<exists>minProfit path swapData.
           abi_decode blob = Some (minProfit, path, swapData)
           \<and> uint minProfit = estimatedProfit opp
           \<and> path = ?path \<and> swapData = [[], []]
           \<and> abi_encode minProfit path swapData = blob"
    using blob by blast
qed

lemma length_blob_ex: "length (abi_encode 5 [1, 2] [[1, 2, 3], []]) < 2 ^ 256"
  by (simp add: length_abi_encode length_enc_bytes pad32_def)

lemma encode_opp_ex:
  "encodeArbitrageParams opp_ex
     = Some (abi_encode 591000000000000000 [UNISWAP_V3_ROUTER, SUSHISWAP_ROUTER] [[], []])"
  by (simp add: encodeArbitrageParams_def)

theorem blob_round_trip_witness:
  "length (abi_encode 5 [1, 2] [[1, 2, 3], []]) < 2 ^ 256
   \<and> abi_decode (abi_encode 5 [1, 2] [[1, 2, 3], []]) = Some (5, [1, 2], [[1, 2, 3], []])
   \<and> encodeArbitrageParams opp_ex
       = Some (abi_encode 591000000000000000 [UNISWAP_V3_ROUTER, SUSHISWAP_ROUTER] [[], []])
   \<and> (\<exists>minProfit. abi_decode (abi_encode 591000000000000000 [UNISWAP_V3_ROUTER, SUSHISWAP_ROUTER] [[], []])
         = Some (minProfit, [UNISWAP_V3_ROUTER, SUSHISWAP_ROUTER], [[], []])
         \<and> uint minProfit = 591000000000000000)"
proof -
  from blob_round_trip [of 5 "[1, 2]" "[[1, 2, 3], []]" opp_ex
      "abi_encode 591000000000000000 [UNISWAP_V3_ROUTER, SUSHISWAP_ROUTER] [[], []]"]
  have a: "abi_decode (abi_encode 5 [1, 2] [[1, 2, 3], []]) = Some (5, [1, 2], [[1, 2, 3], []])"
    and b: "\<exists>minProfit path swapData.
           abi_decode (abi_encode 591000000000000000 [UNISWAP_V3_ROUTER, SUSHISWAP_ROUTER] [[], []])
             = Some (minProfit, path, swapData)
           \<and> uint minProfit = estimatedProfit opp_ex
           \<and> path = [if buyFromDex opp_ex = ''uniswap'' then UNISWAP_V3_ROUTER else SUSHISWAP_ROUTER,
                      if sellToDex opp_ex = ''uniswap'' then UNISWAP_V3_ROUTER else SUSHISWAP_ROUTER]
           \<and> swapData = [[], []]
           \<and> abi_encode minProfit path swapData
               = abi_encode 591000000000000000 [UNISWAP_V3_ROUTER, SUSHISWAP_ROUTER] [[], []]"
    using length_blob_ex encode_opp_ex by blast+
  from b have "\<exists>minProfit. abi_decode (abi_encode 591000000000000000 [UNISWAP_V3_ROUTER, SUSHISWAP_ROUTER] [[], []])
         = Some (minProfit, [UNISWAP_V3_ROUTER, SUSHISWAP_ROUTER], [[], []])
         \<and> uint minProfit = 591000000000000000"
    by simp blast
  with a length_blob_ex encode_opp_ex show ?thesis by blast
qed

end
